theory Spec2Isabelle
  imports Complex_Main
begin

section \<open>Maintenance scheduling: the decision model and its interpretation\<close>

text \<open>
  The program (\<^verbatim>\<open>main.py\<close>) builds a binary program with Pyomo
  (\<^verbatim>\<open>build_model\<close>), hands it to an external solver and prints the solved schedule
  (\<^verbatim>\<open>print_solution\<close>). The embedding keeps the model as data: the index set,
  the parameters, the declared variables, the fixed variables, the constraints and the
  objective as expressions over the variables. Python floats are read as the real
  numbers they denote; rounding of float arithmetic is not modelled.
\<close>

subsection \<open>Variables, errors and sequencing\<close>

text \<open>
  The decision variables of the model: the scalar \<^verbatim>\<open>Split\<close> and, indexed by the day,
  \<^verbatim>\<open>Maintenance\<close>, \<^verbatim>\<open>Start5\<close>, \<^verbatim>\<open>Start3\<close> and \<^verbatim>\<open>Start2\<close>.
\<close>

datatype var = Split | Maintenance int | Start5 int | Start3 int | Start2 int

text \<open>
  Pyomo raises \<^verbatim>\<open>KeyError\<close> when a \<^verbatim>\<open>Param\<close> is initialised at an index outside
  its index set, and \<^verbatim>\<open>ValueError\<close> when a \<^verbatim>\<open>Param\<close> without default is read
  at an index that has no value (both carry the component's name and the index), or
  when the value of a variable that has none is asked for (\<open>NoValue\<close>).
\<close>

datatype error = KeyError string int | ValueError string int | NoValue var

definition and_then :: "'e + 'a \<Rightarrow> ('a \<Rightarrow> 'e + 'b) \<Rightarrow> 'e + 'b" where
  "and_then r f = (case r of Inl e \<Rightarrow> Inl e | Inr x \<Rightarrow> f x)"

fun for_each :: "('a \<Rightarrow> 'e + 'b) \<Rightarrow> 'a list \<Rightarrow> 'e + 'b list" where
  "for_each f [] = Inr []"
| "for_each f (x # xs) =
     (case f x of
        Inl e \<Rightarrow> Inl e
      | Inr y \<Rightarrow> (case for_each f xs of Inl e \<Rightarrow> Inl e | Inr ys \<Rightarrow> Inr (y # ys)))"

subsection \<open>Expressions and constraints\<close>

datatype expr =
    Const real
  | VarE var
  | Add expr expr
  | Sub expr expr
  | Mul expr expr

datatype constraint = Eq expr expr

datatype sense = minimize | maximize

fun eval :: "(var \<Rightarrow> real) \<Rightarrow> expr \<Rightarrow> real" where
  "eval a (Const c) = c"
| "eval a (VarE v) = a v"
| "eval a (Add x y) = eval a x + eval a y"
| "eval a (Sub x y) = eval a x - eval a y"
| "eval a (Mul x y) = eval a x * eval a y"

fun holds :: "(var \<Rightarrow> real) \<Rightarrow> constraint \<Rightarrow> bool" where
  "holds a (Eq l r) = (eval a l = eval a r)"

text \<open>Python's \<^verbatim>\<open>sum\<close> adds the items to the start value 0, from the left.\<close>

definition py_sum :: "expr list \<Rightarrow> expr" where
  "py_sum xs = foldl Add (Const 0) xs"

text \<open>\<^verbatim>\<open>range(lo, hi)\<close> is \<open>lo, ..., hi - 1\<close>; \<^verbatim>\<open>RangeSet(lo, hi)\<close> is \<open>lo, ..., hi\<close>.\<close>

definition py_range :: "int \<Rightarrow> int \<Rightarrow> int list" where
  "py_range lo hi = [lo..hi - 1]"

definition RangeSet :: "int \<Rightarrow> int \<Rightarrow> int list" where
  "RangeSet lo hi = [lo..hi]"

subsection \<open>Parameters\<close>

text \<open>
  A Python dict is an association list in insertion order whose keys are distinct.
  \<^verbatim>\<open>Param(index, initialize=d)\<close> stores \<open>d\<close> key by key and rejects the first key
  that is not in the index set; reading an index that was given no value raises.
\<close>

definition Param :: "string \<Rightarrow> int list \<Rightarrow> (int \<times> 'v) list \<Rightarrow> error + (int \<rightharpoonup> 'v)" where
  "Param name index init =
     (case find (\<lambda>kv. fst kv \<notin> set index) init of
        Some kv \<Rightarrow> Inl (KeyError name (fst kv))
      | None \<Rightarrow> Inr (map_of init))"

definition param_get :: "string \<Rightarrow> (int \<rightharpoonup> 'v) \<Rightarrow> int \<Rightarrow> error + 'v" where
  "param_get name p d = (case p d of None \<Rightarrow> Inl (ValueError name d) | Some v \<Rightarrow> Inr v)"

subsection \<open>The model\<close>

record model =
  T :: "int list"
  Production :: "int \<rightharpoonup> real"
  Prices :: "int \<rightharpoonup> real"
  MaintenanceCoeff :: "int \<rightharpoonup> real"
  Availability :: "int \<rightharpoonup> int"
  binary_vars :: "var list"
  fixed :: "(var \<times> real) list"
  one_maintenance_start_5 :: constraint
  one_maintenance_start_3 :: constraint
  one_maintenance_start_2 :: constraint
  link_maintenance :: "(int \<times> constraint) list"
  profit :: expr
  profit_sense :: sense

text \<open>
  The loop over the days that fixes the three start variables of a day to 0 when
  \<^verbatim>\<open>not model.Availability[day]\<close>: the availability value is falsy when it is 0.
\<close>

definition fix_day :: "(int \<rightharpoonup> int) \<Rightarrow> int \<Rightarrow> error + (var \<times> real) list" where
  "fix_day availability day =
     and_then (param_get ''Availability'' availability day)
       (\<lambda>av. Inr (if av = 0 then [(Start5 day, 0), (Start3 day, 0), (Start2 day, 0)] else []))"

definition fix_unavailable :: "(int \<rightharpoonup> int) \<Rightarrow> int list \<Rightarrow> error + (var \<times> real) list" where
  "fix_unavailable availability days =
     and_then (for_each (fix_day availability) days) (\<lambda>fs. Inr (concat fs))"

definition link_maintenance_rule :: "int \<Rightarrow> constraint" where
  "link_maintenance_rule day =
     (let days_5 = py_sum (map (\<lambda>k. VarE (Start5 k)) (py_range (max 1 (day - 4)) (day + 1)));
          days_3 = py_sum (map (\<lambda>k. VarE (Start3 k)) (py_range (max 1 (day - 2)) (day + 1)));
          days_2 = py_sum (map (\<lambda>k. VarE (Start2 k)) (py_range (max 1 (day - 1)) (day + 1)))
      in Eq (VarE (Maintenance day)) (Add (Add days_5 days_3) days_2))"

definition profit_term ::
  "real \<Rightarrow> real \<Rightarrow> (int \<rightharpoonup> real) \<Rightarrow> (int \<rightharpoonup> real) \<Rightarrow> (int \<rightharpoonup> real) \<Rightarrow> int \<Rightarrow> error + expr" where
  "profit_term capacity fixed_cost production prices coeffs day =
     and_then (param_get ''Production'' production day) (\<lambda>p.
     and_then (param_get ''Prices'' prices day) (\<lambda>q.
     and_then (param_get ''MaintenanceCoeff'' coeffs day) (\<lambda>c.
       Inr (Sub (Mul (Const (capacity * p * q)) (Sub (Const 1) (VarE (Maintenance day))))
                (Mul (Const (fixed_cost * c)) (VarE (Maintenance day)))))))"

definition build_model ::
  "(int \<times> real) list \<Rightarrow> (int \<times> real) list \<Rightarrow> (int \<times> real) list \<Rightarrow> (int \<times> int) list
     \<Rightarrow> real \<Rightarrow> real \<Rightarrow> error + model" where
  "build_model prod0 price coeff availability capacity fixed_cost =
     (let days = RangeSet 1 (int (length prod0)) in
      and_then (Param ''Production'' days prod0) (\<lambda>production.
      and_then (Param ''Prices'' days price) (\<lambda>prices.
      and_then (Param ''MaintenanceCoeff'' days coeff) (\<lambda>coeffs.
      and_then (Param ''Availability'' days availability) (\<lambda>avail.
      and_then (fix_unavailable avail days) (\<lambda>fixes.
      and_then (for_each (profit_term capacity fixed_cost production prices coeffs) days) (\<lambda>terms.
        Inr \<lparr> T = days,
              Production = production,
              Prices = prices,
              MaintenanceCoeff = coeffs,
              Availability = avail,
              binary_vars = Split # map Maintenance days @ map Start5 days
                              @ map Start3 days @ map Start2 days,
              fixed = fixes,
              one_maintenance_start_5 =
                Eq (py_sum (map (\<lambda>day. VarE (Start5 day)) days)) (Sub (Const 1) (VarE Split)),
              one_maintenance_start_3 =
                Eq (py_sum (map (\<lambda>day. VarE (Start3 day)) days)) (VarE Split),
              one_maintenance_start_2 =
                Eq (py_sum (map (\<lambda>day. VarE (Start2 day)) days)) (VarE Split),
              link_maintenance = map (\<lambda>day. (day, link_maintenance_rule day)) days,
              profit = py_sum terms,
              profit_sense = maximize \<rparr>)))))))"

text \<open>
  What the solver is asked for: an assignment of the variables is feasible when every
  declared variable is 0 or 1 (domain \<^verbatim>\<open>Binary\<close>), every fixed variable has the value
  it was fixed to, and every constraint holds.
\<close>

definition feasible :: "model \<Rightarrow> (var \<Rightarrow> real) \<Rightarrow> bool" where
  "feasible m a =
     (list_all (\<lambda>v. a v = 0 \<or> a v = 1) (binary_vars m)
      \<and> list_all (\<lambda>vc. a (fst vc) = snd vc) (fixed m)
      \<and> holds a (one_maintenance_start_5 m)
      \<and> holds a (one_maintenance_start_3 m)
      \<and> holds a (one_maintenance_start_2 m)
      \<and> list_all (\<lambda>dc. holds a (snd dc)) (link_maintenance m))"

subsection \<open>The solution interpreter\<close>

text \<open>
  The two enumerations of \<^verbatim>\<open>pyomo.opt\<close> that \<^verbatim>\<open>print_solution\<close> compares with. Both have
  members called \<^verbatim>\<open>unknown\<close> and \<^verbatim>\<open>error\<close>, hence the prefixes. Of
  \<^verbatim>\<open>results.solver\<close> only the two fields that are read are kept.
\<close>

datatype SolverStatus = ss_ok | ss_warning | ss_error | ss_aborted | ss_unknown

datatype TerminationCondition =
    tc_unknown | tc_maxTimeLimit | tc_maxIterations | tc_minFunctionValue | tc_minStepLength
  | tc_globallyOptimal | tc_locallyOptimal | tc_feasible | tc_optimal | tc_maxEvaluations
  | tc_other | tc_unbounded | tc_infeasible | tc_infeasibleOrUnbounded | tc_invalidProblem
  | tc_intermediateNonInteger | tc_noSolution | tc_solverFailure | tc_internalSolverError
  | tc_error | tc_userInterrupt | tc_resourceInterrupt | tc_licensingProblems

record results =
  status :: SolverStatus
  termination_condition :: TerminationCondition

text \<open>
  What \<^verbatim>\<open>print_solution\<close> prints, line by line, with the formatted values as arguments:
  \<^verbatim>\<open>Optimal solution found.\<close>, \<^verbatim>\<open>Chosen strategy: 5-day maintenance.\<close>,
  \<^verbatim>\<open>5-day window starts on day {day}\<close>, \<^verbatim>\<open>Chosen strategy: 3-day + 2-day maintenance.\<close>,
  \<^verbatim>\<open>3-day window starts on day {day}\<close>, \<^verbatim>\<open>2-day window starts on day {day}\<close>,
  \<^verbatim>\<open>Total Revenue: {value}\<close> and \<^verbatim>\<open>No feasible solution or solver error.\<close>
\<close>

datatype message =
    Optimal_solution_found
  | Chosen_strategy_5_day
  | Window5_starts int
  | Chosen_strategy_3_2_day
  | Window3_starts int
  | Window2_starts int
  | Total_Revenue real
  | No_feasible_solution_or_solver_error

text \<open>
  The solved model holds a value for a variable or none (before a solve, or when the
  solver returned no solution). \<^verbatim>\<open>value(e)\<close> evaluates an expression on these values and
  raises when it meets a variable without one.
\<close>

fun value_expr :: "(var \<rightharpoonup> real) \<Rightarrow> expr \<Rightarrow> error + real" where
  "value_expr s (Const c) = Inr c"
| "value_expr s (VarE v) = (case s v of None \<Rightarrow> Inl (NoValue v) | Some x \<Rightarrow> Inr x)"
| "value_expr s (Add x y) =
     and_then (value_expr s x) (\<lambda>a. and_then (value_expr s y) (\<lambda>b. Inr (a + b)))"
| "value_expr s (Sub x y) =
     and_then (value_expr s x) (\<lambda>a. and_then (value_expr s y) (\<lambda>b. Inr (a - b)))"
| "value_expr s (Mul x y) =
     and_then (value_expr s x) (\<lambda>a. and_then (value_expr s y) (\<lambda>b. Inr (a * b)))"

text \<open>
  \<^verbatim>\<open>round(x, ndigits)\<close> on the reals: the nearest multiple of \<open>10 ^ -ndigits\<close>, a tie going
  to the even one. The conversion of the result back to a binary float is not modelled.
\<close>

definition py_round :: "real \<Rightarrow> nat \<Rightarrow> real" where
  "py_round x ndigits =
     (let y = x * 10 ^ ndigits; f = \<lfloor>y\<rfloor>; r = y - of_int f
      in of_int (if r < 1 / 2 then f else if 1 / 2 < r then f + 1
                 else if even f then f else f + 1) / 10 ^ ndigits)"

text \<open>
  The two loops over \<^verbatim>\<open>model.T\<close>. The result is the lines printed and the exception that
  escaped, if any: the lines printed before a raise stay printed.
\<close>

fun report_5 :: "(var \<rightharpoonup> real) \<Rightarrow> int list \<Rightarrow> message list \<times> error option" where
  "report_5 s [] = ([], None)"
| "report_5 s (day # days) =
     (case s (Start5 day) of
        None \<Rightarrow> ([], Some (NoValue (Start5 day)))
      | Some x \<Rightarrow>
          (case report_5 s days of
             (out, e) \<Rightarrow> ((if x > 0.5 then [Window5_starts day] else []) @ out, e)))"

fun report_3_2 :: "(var \<rightharpoonup> real) \<Rightarrow> int list \<Rightarrow> message list \<times> error option" where
  "report_3_2 s [] = ([], None)"
| "report_3_2 s (day # days) =
     (case s (Start3 day) of
        None \<Rightarrow> ([], Some (NoValue (Start3 day)))
      | Some x \<Rightarrow>
          (case s (Start2 day) of
             None \<Rightarrow> (if x > 0.5 then [Window3_starts day] else [], Some (NoValue (Start2 day)))
           | Some y \<Rightarrow>
               (case report_3_2 s days of
                  (out, e) \<Rightarrow>
                    ((if x > 0.5 then [Window3_starts day] else [])
                       @ (if y > 0.5 then [Window2_starts day] else []) @ out, e))))"

definition report_total :: "model \<Rightarrow> (var \<rightharpoonup> real) \<Rightarrow> message list \<times> error option" where
  "report_total m s =
     (case value_expr s (profit m) of
        Inl e \<Rightarrow> ([], Some e)
      | Inr p \<Rightarrow> ([Total_Revenue (py_round p 2)], None))"

definition print_solution :: "model \<Rightarrow> (var \<rightharpoonup> real) \<Rightarrow> results \<Rightarrow> message list \<times> error option" where
  "print_solution m s res =
     (if status res = ss_ok \<and> termination_condition res = tc_optimal then
        (case s Split of
           None \<Rightarrow> ([Optimal_solution_found], Some (NoValue Split))
         | Some split \<Rightarrow>
             (case (if split = 0
                    then (case report_5 s (T m) of (out, e) \<Rightarrow> (Chosen_strategy_5_day # out, e))
                    else (case report_3_2 s (T m) of (out, e) \<Rightarrow> (Chosen_strategy_3_2_day # out, e))) of
                (out, Some e) \<Rightarrow> (Optimal_solution_found # out, Some e)
              | (out, None) \<Rightarrow>
                  (case report_total m s of (tot, e) \<Rightarrow> (Optimal_solution_found # out @ tot, e))))
      else ([No_feasible_solution_or_solver_error], None))"

text \<open>
  The days that an assignment puts under maintenance, in the order of the index set.
\<close>

definition maintenance_days :: "model \<Rightarrow> (var \<Rightarrow> real) \<Rightarrow> int list" where
  "maintenance_days m a = filter (\<lambda>d. a (Maintenance d) = 1) (T m)"

subsection \<open>The script's scenarios, and schedules used as examples\<close>

text \<open>
  The script builds the availability of its first scenario as
  \<^verbatim>\<open>{d: 1 for d in range(1, T + 1)}\<close> and that of its second as
  \<^verbatim>\<open>{d: 0 if 150 <= d <= 200 else 1 for d in range(1, T + 1)}\<close>. The forecast comes from a
  spreadsheet that is not part of the source, so the examples take a horizon of six days
  with production 1, price 10 and coefficient 1 on every day, and the script's capacity 20
  and fixed cost 500.
\<close>

definition uniform :: "int \<Rightarrow> 'v \<Rightarrow> (int \<times> 'v) list" where
  "uniform n x = map (\<lambda>d. (d, x)) [1..n]"

definition blackout :: "int \<Rightarrow> int \<Rightarrow> int \<Rightarrow> (int \<times> int) list" where
  "blackout n lo hi = map (\<lambda>d. (d, if lo \<le> d \<and> d \<le> hi then 0 else 1)) [1..n]"

text \<open>
  Two families of schedules: one 5-day window starting on day \<open>s\<close>, and a 3-day window
  starting on day \<open>s3\<close> with a 2-day window starting on day \<open>s2\<close>.
\<close>

fun plan5 :: "int \<Rightarrow> var \<Rightarrow> real" where
  "plan5 s Split = 0"
| "plan5 s (Maintenance d) = (if s \<le> d \<and> d \<le> s + 4 then 1 else 0)"
| "plan5 s (Start5 d) = (if d = s then 1 else 0)"
| "plan5 s (Start3 d) = 0"
| "plan5 s (Start2 d) = 0"

fun plan32 :: "int \<Rightarrow> int \<Rightarrow> var \<Rightarrow> real" where
  "plan32 s3 s2 Split = 1"
| "plan32 s3 s2 (Maintenance d) = (if (s3 \<le> d \<and> d \<le> s3 + 2) \<or> (s2 \<le> d \<and> d \<le> s2 + 1) then 1 else 0)"
| "plan32 s3 s2 (Start5 d) = 0"
| "plan32 s3 s2 (Start3 d) = (if d = s3 then 1 else 0)"
| "plan32 s3 s2 (Start2 d) = (if d = s2 then 1 else 0)"

definition scenario :: "(int \<times> int) list \<Rightarrow> error + model" where
  "scenario availability = build_model (uniform 6 1) (uniform 6 10) (uniform 6 1) availability 20 500"

text \<open>
  A solve that loads a value for every variable, and two solver results: GLPK's report of
  an optimal solution and its report of an infeasible problem.
\<close>

definition solved :: "(var \<Rightarrow> real) \<Rightarrow> (var \<rightharpoonup> real)" where
  "solved a = (\<lambda>v. Some (a v))"

definition optimal_result :: results where
  "optimal_result = \<lparr> status = ss_ok, termination_condition = tc_optimal \<rparr>"

definition infeasible_result :: results where
  "infeasible_result = \<lparr> status = ss_warning, termination_condition = tc_infeasible \<rparr>"

section \<open>Properties\<close>

subsection \<open>Sequencing, sums and parameters\<close>

lemma and_then_Inr_iff: "and_then r f = Inr y \<longleftrightarrow> (\<exists>x. r = Inr x \<and> f x = Inr y)"
  by (cases r) (simp_all add: and_then_def)

lemma and_then_simps [simp]:
  "and_then (Inl e) f = Inl e" "and_then (Inr x) f = f x"
  by (simp_all add: and_then_def)

lemma foldl_Add_eval: "eval a (foldl Add e xs) = eval a e + sum_list (map (eval a) xs)"
  by (induction xs arbitrary: e) simp_all

lemma eval_py_sum: "eval a (py_sum xs) = sum_list (map (eval a) xs)"
  by (simp add: py_sum_def foldl_Add_eval)

lemma eval_py_sum_vars: "eval a (py_sum (map (\<lambda>k. VarE (f k)) ds)) = (\<Sum>k\<leftarrow>ds. a (f k))"
  by (simp add: eval_py_sum comp_def)

lemma for_each_Inr: "for_each f xs = Inr ys \<Longrightarrow> list_all2 (\<lambda>x y. f x = Inr y) xs ys"
  by (induction xs arbitrary: ys) (auto split: sum.splits)

lemma Param_Inr_iff:
  "Param name index init = Inr p \<longleftrightarrow> (\<forall>kv\<in>set init. fst kv \<in> set index) \<and> p = map_of init"
proof (cases "find (\<lambda>kv. fst kv \<notin> set index) init")
  case None
  then have "\<forall>kv\<in>set init. fst kv \<in> set index"
    by (auto simp: find_None_iff)
  with None show ?thesis by (auto simp: Param_def)
next
  case (Some kv)
  then have "kv \<in> set init" and "fst kv \<notin> set index"
    by (auto simp: find_Some_iff)
  with Some show ?thesis by (auto simp: Param_def)
qed

lemma param_get_Inr_iff: "param_get name p d = Inr v \<longleftrightarrow> p d = Some v"
  by (simp add: param_get_def split: option.splits)

lemma build_model_Inr:
  assumes "build_model p pr c av cap fc = Inr m"
  obtains fxs terms where
    "\<forall>kv\<in>set p. fst kv \<in> {1..int (length p)}"
    "\<forall>kv\<in>set pr. fst kv \<in> {1..int (length p)}"
    "\<forall>kv\<in>set c. fst kv \<in> {1..int (length p)}"
    "\<forall>kv\<in>set av. fst kv \<in> {1..int (length p)}"
    "fix_unavailable (map_of av) [1..int (length p)] = Inr fxs"
    "for_each (profit_term cap fc (map_of p) (map_of pr) (map_of c)) [1..int (length p)] = Inr terms"
    "m = \<lparr> T = [1..int (length p)],
              Production = map_of p,
              Prices = map_of pr,
              MaintenanceCoeff = map_of c,
              Availability = map_of av,
              binary_vars = Split # map Maintenance [1..int (length p)] @ map Start5 [1..int (length p)]
                              @ map Start3 [1..int (length p)] @ map Start2 [1..int (length p)],
              fixed = fxs,
              one_maintenance_start_5 =
                Eq (py_sum (map (\<lambda>day. VarE (Start5 day)) [1..int (length p)])) (Sub (Const 1) (VarE Split)),
              one_maintenance_start_3 =
                Eq (py_sum (map (\<lambda>day. VarE (Start3 day)) [1..int (length p)])) (VarE Split),
              one_maintenance_start_2 =
                Eq (py_sum (map (\<lambda>day. VarE (Start2 day)) [1..int (length p)])) (VarE Split),
              link_maintenance = map (\<lambda>day. (day, link_maintenance_rule day)) [1..int (length p)],
              profit = py_sum terms,
              profit_sense = maximize \<rparr>"
proof -
  from assms obtain production prices coeffs avail fxs terms where
    a: "Param ''Production'' [1..int (length p)] p = Inr production"
    and b: "Param ''Prices'' [1..int (length p)] pr = Inr prices"
    and c: "Param ''MaintenanceCoeff'' [1..int (length p)] c = Inr coeffs"
    and d: "Param ''Availability'' [1..int (length p)] av = Inr avail"
    and e: "fix_unavailable avail [1..int (length p)] = Inr fxs"
    and f: "for_each (profit_term cap fc production prices coeffs) [1..int (length p)] = Inr terms"
    and g: "Inr \<lparr> T = [1..int (length p)],
              Production = production,
              Prices = prices,
              MaintenanceCoeff = coeffs,
              Availability = avail,
              binary_vars = Split # map Maintenance [1..int (length p)] @ map Start5 [1..int (length p)]
                              @ map Start3 [1..int (length p)] @ map Start2 [1..int (length p)],
              fixed = fxs,
              one_maintenance_start_5 =
                Eq (py_sum (map (\<lambda>day. VarE (Start5 day)) [1..int (length p)])) (Sub (Const 1) (VarE Split)),
              one_maintenance_start_3 =
                Eq (py_sum (map (\<lambda>day. VarE (Start3 day)) [1..int (length p)])) (VarE Split),
              one_maintenance_start_2 =
                Eq (py_sum (map (\<lambda>day. VarE (Start2 day)) [1..int (length p)])) (VarE Split),
              link_maintenance = map (\<lambda>day. (day, link_maintenance_rule day)) [1..int (length p)],
              profit = py_sum terms,
              profit_sense = maximize \<rparr> = (Inr m :: error + model)"
    unfolding build_model_def Let_def RangeSet_def and_then_Inr_iff by (elim exE conjE)
  from a have a': "production = map_of p" and a'': "\<forall>kv\<in>set p. fst kv \<in> {1..int (length p)}"
    by (simp_all add: Param_Inr_iff)
  from b have b': "prices = map_of pr" and b'': "\<forall>kv\<in>set pr. fst kv \<in> {1..int (length p)}"
    by (simp_all add: Param_Inr_iff)
  from c have c': "coeffs = map_of c" and c'': "\<forall>kv\<in>set c. fst kv \<in> {1..int (length p)}"
    by (simp_all add: Param_Inr_iff)
  from d have d': "avail = map_of av" and d'': "\<forall>kv\<in>set av. fst kv \<in> {1..int (length p)}"
    by (simp_all add: Param_Inr_iff)
  from g have g': "m = \<lparr> T = [1..int (length p)],
              Production = production,
              Prices = prices,
              MaintenanceCoeff = coeffs,
              Availability = avail,
              binary_vars = Split # map Maintenance [1..int (length p)] @ map Start5 [1..int (length p)]
                              @ map Start3 [1..int (length p)] @ map Start2 [1..int (length p)],
              fixed = fxs,
              one_maintenance_start_5 =
                Eq (py_sum (map (\<lambda>day. VarE (Start5 day)) [1..int (length p)])) (Sub (Const 1) (VarE Split)),
              one_maintenance_start_3 =
                Eq (py_sum (map (\<lambda>day. VarE (Start3 day)) [1..int (length p)])) (VarE Split),
              one_maintenance_start_2 =
                Eq (py_sum (map (\<lambda>day. VarE (Start2 day)) [1..int (length p)])) (VarE Split),
              link_maintenance = map (\<lambda>day. (day, link_maintenance_rule day)) [1..int (length p)],
              profit = py_sum terms,
              profit_sense = maximize \<rparr>"
    by (simp only: sum.inject)
  show thesis
    by (rule that[OF a'' b'' c'' d'' e[unfolded d'] f[unfolded a' b' c'] g'[unfolded a' b' c' d']])
qed

lemma sum_list_upto: "(\<Sum>k\<leftarrow>[l..u]. f k) = (\<Sum>k = l..u. f k)"
  by (simp add: sum_list_distinct_conv_sum_set)

lemma for_each_Cons_Inr:
  "for_each f (x # xs) = Inr ys \<longleftrightarrow> (\<exists>y ys'. f x = Inr y \<and> for_each f xs = Inr ys' \<and> ys = y # ys')"
  by (auto split: sum.splits)

lemma fix_day_Inr:
  "fix_day av d = Inr l \<longleftrightarrow>
     (\<exists>x. av d = Some x \<and> l = (if x = 0 then [(Start5 d, 0), (Start3 d, 0), (Start2 d, 0)] else []))"
  by (auto simp: fix_day_def and_then_Inr_iff param_get_Inr_iff)

lemma fix_days_Inr:
  "for_each (fix_day av) ds = Inr fs \<Longrightarrow>
     (\<forall>d\<in>set ds. av d \<noteq> None) \<and>
     (\<forall>v c. (v, c) \<in> set (concat fs) \<longleftrightarrow>
        c = 0 \<and> (\<exists>d\<in>set ds. av d = Some 0 \<and> (v = Start5 d \<or> v = Start3 d \<or> v = Start2 d)))"
proof (induction ds arbitrary: fs)
  case Nil
  then show ?case by simp
next
  case (Cons d ds)
  from Cons.prems obtain x fs' where
    x: "av d = Some x" and fs': "for_each (fix_day av) ds = Inr fs'"
    and fs: "fs = (if x = 0 then [(Start5 d, 0), (Start3 d, 0), (Start2 d, 0)] else []) # fs'"
    unfolding for_each_Cons_Inr fix_day_Inr by blast
  from Cons.IH[OF fs'] have
    ih1: "\<forall>d\<in>set ds. av d \<noteq> None" and
    ih2: "\<And>v c. (v, c) \<in> set (concat fs') \<longleftrightarrow>
        c = 0 \<and> (\<exists>d\<in>set ds. av d = Some 0 \<and> (v = Start5 d \<or> v = Start3 d \<or> v = Start2 d))"
    by blast+
  have "\<forall>e\<in>set (d # ds). av e \<noteq> None"
    using x ih1 by simp
  moreover have "(v, c) \<in> set (concat fs) \<longleftrightarrow>
        c = 0 \<and> (\<exists>e\<in>set (d # ds). av e = Some 0 \<and> (v = Start5 e \<or> v = Start3 e \<or> v = Start2 e))" for v c
  proof -
    have "(v, c) \<in> set (concat fs) \<longleftrightarrow>
        (v, c) \<in> set (if x = 0 then [(Start5 d, 0), (Start3 d, 0), (Start2 d, 0)] else [])
        \<or> (v, c) \<in> set (concat fs')"
      unfolding fs by (simp del: set_concat)
    then show ?thesis
      unfolding ih2 using x by (cases "x = 0") auto
  qed
  ultimately show ?case by blast
qed

lemma fix_unavailable_Inr:
  assumes "fix_unavailable av ds = Inr fxs"
  shows "\<forall>d\<in>set ds. av d \<noteq> None"
    and "(v, c) \<in> set fxs \<longleftrightarrow>
        c = 0 \<and> (\<exists>d\<in>set ds. av d = Some 0 \<and> (v = Start5 d \<or> v = Start3 d \<or> v = Start2 d))"
proof -
  from assms obtain fs where fs: "for_each (fix_day av) ds = Inr fs" and c: "fxs = concat fs"
    by (auto simp: fix_unavailable_def and_then_Inr_iff)
  from fix_days_Inr[OF fs] show "\<forall>d\<in>set ds. av d \<noteq> None" by blast
  from fix_days_Inr[OF fs] show "(v, c) \<in> set fxs \<longleftrightarrow>
        c = 0 \<and> (\<exists>d\<in>set ds. av d = Some 0 \<and> (v = Start5 d \<or> v = Start3 d \<or> v = Start2 d))"
    unfolding c by blast
qed

lemma profit_term_Inr:
  "profit_term cap fc P Q C d = Inr t \<longleftrightarrow>
     (\<exists>p q c. P d = Some p \<and> Q d = Some q \<and> C d = Some c \<and>
        t = Sub (Mul (Const (cap * p * q)) (Sub (Const 1) (VarE (Maintenance d))))
                (Mul (Const (fc * c)) (VarE (Maintenance d))))"
  by (auto simp: profit_term_def and_then_Inr_iff param_get_Inr_iff)

lemma profit_terms_Inr:
  "for_each (profit_term cap fc P Q C) ds = Inr ts \<Longrightarrow>
     (\<forall>d\<in>set ds. P d \<noteq> None \<and> Q d \<noteq> None \<and> C d \<noteq> None) \<and>
     map (eval a) ts =
       map (\<lambda>d. cap * the (P d) * the (Q d) * (1 - a (Maintenance d)) - fc * the (C d) * a (Maintenance d)) ds"
proof (induction ds arbitrary: ts)
  case Nil
  then show ?case by simp
next
  case (Cons d ds)
  from Cons.prems obtain t ts' where
    t: "profit_term cap fc P Q C d = Inr t" and ts': "for_each (profit_term cap fc P Q C) ds = Inr ts'"
    and ts: "ts = t # ts'"
    unfolding for_each_Cons_Inr by blast
  from t obtain p q c where "P d = Some p" "Q d = Some q" "C d = Some c"
    "t = Sub (Mul (Const (cap * p * q)) (Sub (Const 1) (VarE (Maintenance d))))
                (Mul (Const (fc * c)) (VarE (Maintenance d)))"
    unfolding profit_term_Inr by blast
  with Cons.IH[OF ts'] show ?case unfolding ts by simp
qed

subsection \<open>What a built model says\<close>

lemma holds_link_maintenance_rule:
  "holds a (link_maintenance_rule d) \<longleftrightarrow>
     a (Maintenance d) = (\<Sum>k = max 1 (d - 4)..d. a (Start5 k))
                        + (\<Sum>k = max 1 (d - 2)..d. a (Start3 k))
                        + (\<Sum>k = max 1 (d - 1)..d. a (Start2 k))"
  by (simp add: link_maintenance_rule_def Let_def py_range_def eval_py_sum_vars sum_list_upto)

lemma feasible_built_iff:
  assumes "build_model p pr c av cap fc = Inr m"
  shows "feasible m a \<longleftrightarrow>
     (a Split = 0 \<or> a Split = 1)
     \<and> (\<forall>d\<in>{1..int (length p)}.
          (a (Maintenance d) = 0 \<or> a (Maintenance d) = 1)
          \<and> (a (Start5 d) = 0 \<or> a (Start5 d) = 1)
          \<and> (a (Start3 d) = 0 \<or> a (Start3 d) = 1)
          \<and> (a (Start2 d) = 0 \<or> a (Start2 d) = 1))
     \<and> (\<forall>d\<in>{1..int (length p)}. map_of av d = Some 0 \<longrightarrow>
          a (Start5 d) = 0 \<and> a (Start3 d) = 0 \<and> a (Start2 d) = 0)
     \<and> (\<Sum>d = 1..int (length p). a (Start5 d)) = 1 - a Split
     \<and> (\<Sum>d = 1..int (length p). a (Start3 d)) = a Split
     \<and> (\<Sum>d = 1..int (length p). a (Start2 d)) = a Split
     \<and> (\<forall>d\<in>{1..int (length p)}.
          a (Maintenance d) = (\<Sum>k = max 1 (d - 4)..d. a (Start5 k))
                             + (\<Sum>k = max 1 (d - 2)..d. a (Start3 k))
                             + (\<Sum>k = max 1 (d - 1)..d. a (Start2 k)))"
proof -
  from assms obtain fxs terms where
    fx: "fix_unavailable (map_of av) [1..int (length p)] = Inr fxs"
    and m: "binary_vars m = Split # map Maintenance [1..int (length p)] @ map Start5 [1..int (length p)]
                              @ map Start3 [1..int (length p)] @ map Start2 [1..int (length p)]"
      "fixed m = fxs"
      "one_maintenance_start_5 m =
                Eq (py_sum (map (\<lambda>day. VarE (Start5 day)) [1..int (length p)])) (Sub (Const 1) (VarE Split))"
      "one_maintenance_start_3 m =
                Eq (py_sum (map (\<lambda>day. VarE (Start3 day)) [1..int (length p)])) (VarE Split)"
      "one_maintenance_start_2 m =
                Eq (py_sum (map (\<lambda>day. VarE (Start2 day)) [1..int (length p)])) (VarE Split)"
      "link_maintenance m = map (\<lambda>day. (day, link_maintenance_rule day)) [1..int (length p)]"
    by (rule build_model_Inr) simp
  have bin: "list_all (\<lambda>v. a v = 0 \<or> a v = 1) (binary_vars m) \<longleftrightarrow>
     (a Split = 0 \<or> a Split = 1)
     \<and> (\<forall>d\<in>{1..int (length p)}.
          (a (Maintenance d) = 0 \<or> a (Maintenance d) = 1)
          \<and> (a (Start5 d) = 0 \<or> a (Start5 d) = 1)
          \<and> (a (Start3 d) = 0 \<or> a (Start3 d) = 1)
          \<and> (a (Start2 d) = 0 \<or> a (Start2 d) = 1))"
    unfolding m by (simp add: list_all_iff) blast
  have fixd: "list_all (\<lambda>vc. a (fst vc) = snd vc) (fixed m) \<longleftrightarrow>
     (\<forall>d\<in>{1..int (length p)}. map_of av d = Some 0 \<longrightarrow>
          a (Start5 d) = 0 \<and> a (Start3 d) = 0 \<and> a (Start2 d) = 0)"
  proof -
    have "list_all (\<lambda>vc. a (fst vc) = snd vc) fxs \<longleftrightarrow> (\<forall>v c. (v, c) \<in> set fxs \<longrightarrow> a v = c)"
      by (auto simp: list_all_iff)
    also have "\<dots> \<longleftrightarrow> (\<forall>d\<in>{1..int (length p)}. map_of av d = Some 0 \<longrightarrow>
          a (Start5 d) = 0 \<and> a (Start3 d) = 0 \<and> a (Start2 d) = 0)"
      unfolding fix_unavailable_Inr(2)[OF fx] by auto
    finally show ?thesis unfolding m .
  qed
  have link: "list_all (\<lambda>dc. holds a (snd dc)) (link_maintenance m) \<longleftrightarrow>
     (\<forall>d\<in>{1..int (length p)}.
          a (Maintenance d) = (\<Sum>k = max 1 (d - 4)..d. a (Start5 k))
                             + (\<Sum>k = max 1 (d - 2)..d. a (Start3 k))
                             + (\<Sum>k = max 1 (d - 1)..d. a (Start2 k)))"
    unfolding m by (simp add: list_all_iff holds_link_maintenance_rule)
  have c5: "holds a (one_maintenance_start_5 m) \<longleftrightarrow> (\<Sum>d = 1..int (length p). a (Start5 d)) = 1 - a Split"
    unfolding m by (simp add: eval_py_sum_vars sum_list_upto)
  have c3: "holds a (one_maintenance_start_3 m) \<longleftrightarrow> (\<Sum>d = 1..int (length p). a (Start3 d)) = a Split"
    unfolding m by (simp add: eval_py_sum_vars sum_list_upto)
  have c2: "holds a (one_maintenance_start_2 m) \<longleftrightarrow> (\<Sum>d = 1..int (length p). a (Start2 d)) = a Split"
    unfolding m by (simp add: eval_py_sum_vars sum_list_upto)
  show ?thesis
    unfolding feasible_def bin fixd link c5 c3 c2 by blast
qed

subsection \<open>Evaluating the examples\<close>

lemma upto_from_one: "[1..numeral n] = 1 # [2..numeral n]" "[1..1] = [1]"
  by (subst upto.simps, simp)+

lemmas build_eval = upto_from_one build_model_def Param_def uniform_def blackout_def RangeSet_def fix_unavailable_def
  fix_day_def param_get_def profit_term_def upto_rec_numeral Let_def

lemma scenario_full: "scenario (uniform 6 1) = Inr (projr (scenario (uniform 6 1)))"
  by (simp add: scenario_def build_eval)

lemma scenario_blackout: "scenario (blackout 6 2 6) = Inr (projr (scenario (blackout 6 2 6)))"
  by (simp add: scenario_def build_eval)

lemma Ball_upto: "(\<forall>d\<in>{l..u}. P d) \<longleftrightarrow> list_all P [l..u]"
  by (simp add: list_all_iff)

lemmas interval_eval = upto_from_one Ball_upto sum_list_upto[symmetric] upto_rec_numeral

lemma feasible_plan5_2: "feasible (projr (scenario (uniform 6 1))) (plan5 2)"
  unfolding feasible_built_iff[OF scenario_full[unfolded scenario_def], folded scenario_def]
  by (simp add: uniform_def interval_eval)

lemma feasible_plan5_5: "feasible (projr (scenario (uniform 6 1))) (plan5 5)"
  unfolding feasible_built_iff[OF scenario_full[unfolded scenario_def], folded scenario_def]
  by (simp add: uniform_def interval_eval)

lemma feasible_plan32: "feasible (projr (scenario (uniform 6 1))) (plan32 1 5)"
  unfolding feasible_built_iff[OF scenario_full[unfolded scenario_def], folded scenario_def]
  by (simp add: uniform_def interval_eval)

lemma feasible_blackout: "feasible (projr (scenario (blackout 6 2 6))) (plan5 1)"
  unfolding feasible_built_iff[OF scenario_blackout[unfolded scenario_def], folded scenario_def]
  by (simp add: uniform_def blackout_def interval_eval)

subsection \<open>The fields of a built model\<close>

lemma build_model_T:
  assumes "build_model p pr c av cap fc = Inr m"
  shows "T m = [1..int (length p)]"
  using assms by (rule build_model_Inr) simp

lemma build_model_params:
  assumes "build_model p pr c av cap fc = Inr m"
  shows "Production m = map_of p" "Prices m = map_of pr" "MaintenanceCoeff m = map_of c"
    "Availability m = map_of av" "profit_sense m = maximize"
    "link_maintenance m = map (\<lambda>day. (day, link_maintenance_rule day)) (T m)"
  using assms by (rule build_model_Inr, simp)+

lemma build_model_fixed:
  assumes "build_model p pr c av cap fc = Inr m"
  shows "(v, x) \<in> set (fixed m) \<longleftrightarrow>
     x = 0 \<and> (\<exists>d\<in>set (T m). map_of av d = Some 0 \<and> (v = Start5 d \<or> v = Start3 d \<or> v = Start2 d))"
proof -
  from assms obtain fxs where
    fx: "fix_unavailable (map_of av) [1..int (length p)] = Inr fxs" and m: "fixed m = fxs" "T m = [1..int (length p)]"
    by (rule build_model_Inr) simp
  show ?thesis unfolding m by (rule fix_unavailable_Inr(2)[OF fx])
qed

lemma build_model_defined:
  assumes "build_model p pr c av cap fc = Inr m" and "d \<in> set (T m)"
  shows "map_of p d \<noteq> None" "map_of pr d \<noteq> None" "map_of c d \<noteq> None" "map_of av d \<noteq> None"
proof -
  from assms(1) obtain fxs terms where
    fx: "fix_unavailable (map_of av) [1..int (length p)] = Inr fxs"
    and ts: "for_each (profit_term cap fc (map_of p) (map_of pr) (map_of c)) [1..int (length p)] = Inr terms"
    and m: "T m = [1..int (length p)]"
    by (rule build_model_Inr) simp
  from assms(2) have d: "d \<in> set [1..int (length p)]" unfolding m .
  from profit_terms_Inr[OF ts] d
  show "map_of p d \<noteq> None" "map_of pr d \<noteq> None" "map_of c d \<noteq> None" by blast+
  from fix_unavailable_Inr(1)[OF fx] d show "map_of av d \<noteq> None" by blast
qed

lemma build_model_profit:
  assumes "build_model p pr c av cap fc = Inr m"
  shows "eval a (profit m) =
     (\<Sum>day\<leftarrow>T m. cap * the (map_of p day) * the (map_of pr day) * (1 - a (Maintenance day))
                     - fc * the (map_of c day) * a (Maintenance day))"
proof -
  from assms obtain terms where
    ts: "for_each (profit_term cap fc (map_of p) (map_of pr) (map_of c)) [1..int (length p)] = Inr terms"
    and m: "T m = [1..int (length p)]" "profit m = py_sum terms"
    by (rule build_model_Inr) simp
  from profit_terms_Inr[OF ts, of a] show ?thesis
    unfolding m eval_py_sum by simp
qed

lemma build_model_keys:
  assumes "build_model p pr c av cap fc = Inr m"
  shows "fst ` set p = {1..int (length p)}"
proof
  from assms show "fst ` set p \<subseteq> {1..int (length p)}"
    by (rule build_model_Inr) auto
  show "{1..int (length p)} \<subseteq> fst ` set p"
  proof
    fix d assume "d \<in> {1..int (length p)}"
    then have "d \<in> set (T m)" by (simp add: build_model_T[OF assms])
    from build_model_defined(1)[OF assms this] show "d \<in> fst ` set p"
      by (simp add: map_of_eq_None_iff)
  qed
qed

subsection \<open>Sums of 0/1 values\<close>

lemma binary_sum_zero_iff:
  fixes f :: "int \<Rightarrow> real"
  assumes "finite S" and "\<forall>k\<in>S. f k = 0 \<or> f k = 1"
  shows "sum f S = 0 \<longleftrightarrow> (\<forall>k\<in>S. f k = 0)"
proof -
  from assms(2) have "\<forall>k\<in>S. 0 \<le> f k" by auto
  with assms(1) show ?thesis by (simp add: sum_nonneg_eq_0_iff)
qed

lemma binary_sum_nonneg:
  fixes f :: "int \<Rightarrow> real"
  assumes "\<forall>k\<in>S. f k = 0 \<or> f k = 1"
  shows "0 \<le> sum f S"
  by (rule sum_nonneg) (use assms in auto)

lemma binary_sum_one_unique:
  fixes f :: "int \<Rightarrow> real"
  assumes "finite S" and "\<forall>k\<in>S. f k = 0 \<or> f k = 1" and "sum f S = 1"
  obtains s where "s \<in> S" "f s = 1" "\<forall>k\<in>S. k \<noteq> s \<longrightarrow> f k = 0"
proof -
  from assms have "\<not> (\<forall>k\<in>S. f k = 0)" using binary_sum_zero_iff[OF assms(1,2)] by simp
  then obtain s where s: "s \<in> S" "f s = 1" using assms(2) by blast
  have "sum f S = f s + sum f (S - {s})"
    using assms(1) s(1) by (simp add: sum.remove)
  with assms(3) s(2) have "sum f (S - {s}) = 0" by simp
  moreover have "\<forall>k\<in>S - {s}. f k = 0 \<or> f k = 1" using assms(2) by blast
  ultimately have "\<forall>k\<in>S - {s}. f k = 0"
    using binary_sum_zero_iff[of "S - {s}" f] assms(1) by simp
  then have "\<forall>k\<in>S. k \<noteq> s \<longrightarrow> f k = 0" by blast
  with s show thesis by (rule that)
qed

subsection \<open>The model builder: claims C1, C2, C4, C8 and C3\<close>

text \<open>
  Claim C1. In every feasible 0/1 assignment of a model that \<^verbatim>\<open>build_model\<close> returns,
  the window-start counts follow the strategy: with \<open>Split = 0\<close> the \<open>Start5\<close> variables
  sum to 1 over the days and the \<open>Start3\<close> and \<open>Start2\<close> variables sum to 0; with
  \<open>Split = 1\<close> the \<open>Start3\<close> and the \<open>Start2\<close> variables each sum to 1 and the
  \<open>Start5\<close> variables sum to 0. \<open>Split\<close> is one of the two.
\<close>

theorem window_start_counts_by_strategy:
  assumes "build_model prod0 price coeff availability capacity fixed_cost = Inr m"
    and "feasible m a"
  shows "(a Split = 0 \<or> a Split = 1)
    \<and> (a Split = 0 \<longrightarrow> (\<Sum>day\<leftarrow>T m. a (Start5 day)) = 1
          \<and> (\<Sum>day\<leftarrow>T m. a (Start3 day)) = 0 \<and> (\<Sum>day\<leftarrow>T m. a (Start2 day)) = 0)
    \<and> (a Split = 1 \<longrightarrow> (\<Sum>day\<leftarrow>T m. a (Start3 day)) = 1
          \<and> (\<Sum>day\<leftarrow>T m. a (Start2 day)) = 1 \<and> (\<Sum>day\<leftarrow>T m. a (Start5 day)) = 0)"
  using assms(2)
  unfolding feasible_built_iff[OF assms(1)] build_model_T[OF assms(1)] sum_list_upto
  by simp

theorem window_start_counts_by_strategy_witness:
  "feasible (projr (scenario (uniform 6 1))) (plan5 2)
   \<and> plan5 2 Split = 0
   \<and> (\<Sum>day\<leftarrow>T (projr (scenario (uniform 6 1))). plan5 2 (Start5 day)) = 1
   \<and> (\<Sum>day\<leftarrow>T (projr (scenario (uniform 6 1))). plan5 2 (Start3 day)) = 0
   \<and> (\<Sum>day\<leftarrow>T (projr (scenario (uniform 6 1))). plan5 2 (Start2 day)) = 0
   \<and> feasible (projr (scenario (uniform 6 1))) (plan32 1 5)
   \<and> plan32 1 5 Split = 1
   \<and> (\<Sum>day\<leftarrow>T (projr (scenario (uniform 6 1))). plan32 1 5 (Start3 day)) = 1
   \<and> (\<Sum>day\<leftarrow>T (projr (scenario (uniform 6 1))). plan32 1 5 (Start2 day)) = 1
   \<and> (\<Sum>day\<leftarrow>T (projr (scenario (uniform 6 1))). plan32 1 5 (Start5 day)) = 0"
  using window_start_counts_by_strategy[OF scenario_full[unfolded scenario_def] feasible_plan5_2[unfolded scenario_def]]
    window_start_counts_by_strategy[OF scenario_full[unfolded scenario_def] feasible_plan32[unfolded scenario_def]]
    feasible_plan5_2 feasible_plan32
  by (simp add: scenario_def)

text \<open>
  Claim C2. For every day of the index set the model holds the linking constraint of that
  day, which says that \<open>Maintenance[day]\<close> equals the sum of \<open>Start5\<close> over
  \<open>max 1 (day - 4) .. day\<close> plus the sum of \<open>Start3\<close> over \<open>max 1 (day - 2) .. day\<close>
  plus the sum of \<open>Start2\<close> over \<open>max 1 (day - 1) .. day\<close>. In a feasible assignment
  the day is under maintenance exactly when one of these start variables is 1.
\<close>

theorem link_maintenance_equality:
  assumes "build_model prod0 price coeff availability capacity fixed_cost = Inr m"
    and "day \<in> set (T m)"
  shows "map_of (link_maintenance m) day = Some (link_maintenance_rule day)
    \<and> (holds a (link_maintenance_rule day) \<longleftrightarrow>
         a (Maintenance day) = (\<Sum>k = max 1 (day - 4)..day. a (Start5 k))
                              + (\<Sum>k = max 1 (day - 2)..day. a (Start3 k))
                              + (\<Sum>k = max 1 (day - 1)..day. a (Start2 k)))
    \<and> (feasible m a \<longrightarrow>
         a (Maintenance day) = (\<Sum>k = max 1 (day - 4)..day. a (Start5 k))
                              + (\<Sum>k = max 1 (day - 2)..day. a (Start3 k))
                              + (\<Sum>k = max 1 (day - 1)..day. a (Start2 k))
         \<and> (a (Maintenance day) = 1 \<longleftrightarrow>
               (\<exists>k\<in>{max 1 (day - 4)..day}. a (Start5 k) = 1)
             \<or> (\<exists>k\<in>{max 1 (day - 2)..day}. a (Start3 k) = 1)
             \<or> (\<exists>k\<in>{max 1 (day - 1)..day}. a (Start2 k) = 1)))"
proof (intro conjI impI)
  show "map_of (link_maintenance m) day = Some (link_maintenance_rule day)"
    unfolding build_model_params(6)[OF assms(1)] map_of_map_restrict
    using assms(2) by simp
  show "holds a (link_maintenance_rule day) \<longleftrightarrow>
         a (Maintenance day) = (\<Sum>k = max 1 (day - 4)..day. a (Start5 k))
                              + (\<Sum>k = max 1 (day - 2)..day. a (Start3 k))
                              + (\<Sum>k = max 1 (day - 1)..day. a (Start2 k))"
    by (rule holds_link_maintenance_rule)
next
  assume f: "feasible m a"
  let ?n = "int (length prod0)"
  from assms(2) have d: "day \<in> {1..?n}" by (simp add: build_model_T[OF assms(1)])
  note fb = f[unfolded feasible_built_iff[OF assms(1)]]
  from fb d show eq: "a (Maintenance day) = (\<Sum>k = max 1 (day - 4)..day. a (Start5 k))
                              + (\<Sum>k = max 1 (day - 2)..day. a (Start3 k))
                              + (\<Sum>k = max 1 (day - 1)..day. a (Start2 k))"
    by blast
  from fb d have M: "a (Maintenance day) = 0 \<or> a (Maintenance day) = 1" by blast
  have sub: "{max 1 (day - j)..day} \<subseteq> {1..?n}" for j
    using d by auto
  have b5: "\<forall>k\<in>{max 1 (day - 4)..day}. a (Start5 k) = 0 \<or> a (Start5 k) = 1"
    and b3: "\<forall>k\<in>{max 1 (day - 2)..day}. a (Start3 k) = 0 \<or> a (Start3 k) = 1"
    and b2: "\<forall>k\<in>{max 1 (day - 1)..day}. a (Start2 k) = 0 \<or> a (Start2 k) = 1"
    using fb sub by blast+
  have z5: "(\<Sum>k = max 1 (day - 4)..day. a (Start5 k)) = 0 \<longleftrightarrow> \<not> (\<exists>k\<in>{max 1 (day - 4)..day}. a (Start5 k) = 1)"
    using binary_sum_zero_iff[OF _ b5] b5 by auto
  have z3: "(\<Sum>k = max 1 (day - 2)..day. a (Start3 k)) = 0 \<longleftrightarrow> \<not> (\<exists>k\<in>{max 1 (day - 2)..day}. a (Start3 k) = 1)"
    using binary_sum_zero_iff[OF _ b3] b3 by auto
  have z2: "(\<Sum>k = max 1 (day - 1)..day. a (Start2 k)) = 0 \<longleftrightarrow> \<not> (\<exists>k\<in>{max 1 (day - 1)..day}. a (Start2 k) = 1)"
    using binary_sum_zero_iff[OF _ b2] b2 by auto
  have n5: "0 \<le> (\<Sum>k = max 1 (day - 4)..day. a (Start5 k))" by (rule binary_sum_nonneg[OF b5])
  have n3: "0 \<le> (\<Sum>k = max 1 (day - 2)..day. a (Start3 k))" by (rule binary_sum_nonneg[OF b3])
  have n2: "0 \<le> (\<Sum>k = max 1 (day - 1)..day. a (Start2 k))" by (rule binary_sum_nonneg[OF b2])
  have "a (Maintenance day) = 1 \<longleftrightarrow> a (Maintenance day) \<noteq> 0" using M by auto
  also have "\<dots> \<longleftrightarrow> \<not> ((\<Sum>k = max 1 (day - 4)..day. a (Start5 k)) = 0
      \<and> (\<Sum>k = max 1 (day - 2)..day. a (Start3 k)) = 0
      \<and> (\<Sum>k = max 1 (day - 1)..day. a (Start2 k)) = 0)"
    unfolding eq using n5 n3 n2 by linarith
  also have "\<dots> \<longleftrightarrow> (\<exists>k\<in>{max 1 (day - 4)..day}. a (Start5 k) = 1)
             \<or> (\<exists>k\<in>{max 1 (day - 2)..day}. a (Start3 k) = 1)
             \<or> (\<exists>k\<in>{max 1 (day - 1)..day}. a (Start2 k) = 1)"
    unfolding z5 z3 z2 by blast
  finally show "a (Maintenance day) = 1 \<longleftrightarrow>
               (\<exists>k\<in>{max 1 (day - 4)..day}. a (Start5 k) = 1)
             \<or> (\<exists>k\<in>{max 1 (day - 2)..day}. a (Start3 k) = 1)
             \<or> (\<exists>k\<in>{max 1 (day - 1)..day}. a (Start2 k) = 1)" .
qed

lemma scenario_full_T: "T (projr (scenario (uniform 6 1))) = [1..6]"
  using build_model_T[OF scenario_full[unfolded scenario_def]]
  by (simp add: scenario_def uniform_def upto_from_one)

lemma scenario_blackout_T: "T (projr (scenario (blackout 6 2 6))) = [1..6]"
  using build_model_T[OF scenario_blackout[unfolded scenario_def]]
  by (simp add: scenario_def uniform_def upto_from_one)

theorem link_maintenance_equality_witness:
  "3 \<in> set (T (projr (scenario (uniform 6 1))))
   \<and> map_of (link_maintenance (projr (scenario (uniform 6 1)))) 3 = Some (link_maintenance_rule 3)
   \<and> holds (plan5 2) (link_maintenance_rule 3)
   \<and> feasible (projr (scenario (uniform 6 1))) (plan5 2)
   \<and> plan5 2 (Maintenance 3) = (\<Sum>k = max 1 (3 - 4)..3. plan5 2 (Start5 k))
                              + (\<Sum>k = max 1 (3 - 2)..3. plan5 2 (Start3 k))
                              + (\<Sum>k = max 1 (3 - 1)..3. plan5 2 (Start2 k))
   \<and> plan5 2 (Maintenance 3) = 1
   \<and> (\<exists>k\<in>{max 1 (3 - 4)..3}. plan5 2 (Start5 k) = 1)"
proof -
  have d: "3 \<in> set (T (projr (build_model (uniform 6 1) (uniform 6 10) (uniform 6 1) (uniform 6 1) 20 500)))"
    using scenario_full_T by (simp add: scenario_def)
  have one: "plan5 2 (Maintenance 3) = 1" by simp
  have "\<exists>k\<in>{max 1 (3 - 4)..3}. plan5 2 (Start5 k) = 1"
    by (rule bexI[of _ 2]) simp_all
  with link_maintenance_equality[OF scenario_full[unfolded scenario_def] d, of "plan5 2"]
    feasible_plan5_2 d one
  show ?thesis by (simp add: scenario_def)
qed

text \<open>
  Claim C4. On a day whose availability is false (0), the three start variables are fixed
  to 0 in the model, so they are 0 in every feasible assignment, whatever the objective.
\<close>

theorem unavailable_day_starts_fixed:
  assumes "build_model prod0 price coeff availability capacity fixed_cost = Inr m"
    and "day \<in> set (T m)"
    and "map_of availability day = Some 0"
  shows "Availability m day = Some 0
    \<and> (Start5 day, 0) \<in> set (fixed m) \<and> (Start3 day, 0) \<in> set (fixed m) \<and> (Start2 day, 0) \<in> set (fixed m)
    \<and> (feasible m a \<longrightarrow> a (Start5 day) = 0 \<and> a (Start3 day) = 0 \<and> a (Start2 day) = 0)"
proof -
  have fx: "(Start5 day, 0) \<in> set (fixed m)" "(Start3 day, 0) \<in> set (fixed m)" "(Start2 day, 0) \<in> set (fixed m)"
    unfolding build_model_fixed[OF assms(1)] using assms(2,3) by blast+
  have "a (Start5 day) = 0 \<and> a (Start3 day) = 0 \<and> a (Start2 day) = 0" if "feasible m a"
  proof -
    from that have "list_all (\<lambda>vc. a (fst vc) = snd vc) (fixed m)" by (simp add: feasible_def)
    with fx show ?thesis by (auto simp: list_all_iff)
  qed
  with fx assms(3) show ?thesis by (simp add: build_model_params(4)[OF assms(1)])
qed

theorem unavailable_day_starts_fixed_witness:
  "3 \<in> set (T (projr (scenario (blackout 6 2 6))))
   \<and> map_of (blackout 6 2 6) 3 = Some 0
   \<and> (Start5 3, 0) \<in> set (fixed (projr (scenario (blackout 6 2 6))))
   \<and> (Start3 3, 0) \<in> set (fixed (projr (scenario (blackout 6 2 6))))
   \<and> (Start2 3, 0) \<in> set (fixed (projr (scenario (blackout 6 2 6))))
   \<and> feasible (projr (scenario (blackout 6 2 6))) (plan5 1)
   \<and> plan5 1 (Start5 3) = 0 \<and> plan5 1 (Start3 3) = 0 \<and> plan5 1 (Start2 3) = 0"
proof -
  have d: "3 \<in> set (T (projr (build_model (uniform 6 1) (uniform 6 10) (uniform 6 1) (blackout 6 2 6) 20 500)))"
    using scenario_blackout_T by (simp add: scenario_def)
  have av: "map_of (blackout 6 2 6) 3 = Some 0"
    by (simp add: blackout_def upto_from_one)
  from unavailable_day_starts_fixed[OF scenario_blackout[unfolded scenario_def] d av, of "plan5 1"]
    feasible_blackout d av
  show ?thesis by (simp add: scenario_def)
qed

text \<open>
  Claim C8. For a forecast mapping that \<^verbatim>\<open>build_model\<close> accepts, the index set of the
  model is \<open>1 .. T\<close> where \<open>T\<close> is the largest day of the production forecast, and
  the days of the forecast are exactly the index set. (The empty mapping has no largest
  day.)
\<close>

theorem horizon_is_max_day:
  assumes "build_model prod0 price coeff availability capacity fixed_cost = Inr m"
    and "prod0 \<noteq> []"
  shows "T m = [1..Max (fst ` set prod0)]
    \<and> int (length (T m)) = Max (fst ` set prod0)
    \<and> set (T m) = fst ` set prod0"
proof -
  let ?n = "int (length prod0)"
  have keys: "fst ` set prod0 = {1..?n}" by (rule build_model_keys[OF assms(1)])
  from assms(2) have n: "1 \<le> ?n" by (cases prod0) simp_all
  then have mx: "Max {1..?n} = ?n" by (intro Max_eqI) auto
  show ?thesis
    unfolding build_model_T[OF assms(1)] keys mx by simp
qed

theorem horizon_is_max_day_witness:
  "uniform 6 (1::real) \<noteq> []
   \<and> T (projr (scenario (uniform 6 1))) = [1..Max (fst ` set (uniform 6 (1::real)))]
   \<and> Max (fst ` set (uniform 6 (1::real))) = 6"
proof -
  have ne: "uniform 6 (1::real) \<noteq> []" by (simp add: uniform_def upto_from_one)
  have "Max (fst ` set (uniform 6 (1::real))) = 6" by (simp add: uniform_def upto_from_one)
  with horizon_is_max_day[OF scenario_full[unfolded scenario_def] ne] ne
  show ?thesis by (simp add: scenario_def)
qed

text \<open>
  Claim C3. The objective of the built model is maximised, and its value under any
  assignment is the sum over the days of
  \<open>capacity * production * price * (1 - Maintenance[day]) - fixed_cost * coeff * Maintenance[day]\<close>.
  Under a feasible (0/1) assignment a day without maintenance contributes the full
  \<open>capacity * production * price\<close> and a maintenance day contributes no revenue and the
  cost \<open>fixed_cost * coeff\<close>.
\<close>

theorem profit_objective:
  assumes "build_model prod0 price coeff availability capacity fixed_cost = Inr m"
    and "feasible m a"
  shows "profit_sense m = maximize
    \<and> Production m = map_of prod0 \<and> Prices m = map_of price \<and> MaintenanceCoeff m = map_of coeff
    \<and> (\<forall>day\<in>set (T m). Production m day \<noteq> None \<and> Prices m day \<noteq> None
          \<and> MaintenanceCoeff m day \<noteq> None)
    \<and> (\<forall>b. eval b (profit m) =
          (\<Sum>day\<leftarrow>T m. capacity * the (Production m day) * the (Prices m day) * (1 - b (Maintenance day))
                          - fixed_cost * the (MaintenanceCoeff m day) * b (Maintenance day)))
    \<and> eval a (profit m) =
          (\<Sum>day\<leftarrow>T m. if a (Maintenance day) = 1
                          then - (fixed_cost * the (MaintenanceCoeff m day))
                          else capacity * the (Production m day) * the (Prices m day))"
proof -
  note P = build_model_params[OF assms(1)]
  have def: "\<forall>day\<in>set (T m). Production m day \<noteq> None \<and> Prices m day \<noteq> None
          \<and> MaintenanceCoeff m day \<noteq> None"
    unfolding P using build_model_defined[OF assms(1)] by blast
  have gen: "eval b (profit m) =
          (\<Sum>day\<leftarrow>T m. capacity * the (Production m day) * the (Prices m day) * (1 - b (Maintenance day))
                          - fixed_cost * the (MaintenanceCoeff m day) * b (Maintenance day))" for b
    unfolding P by (rule build_model_profit[OF assms(1)])
  from assms(2)[unfolded feasible_built_iff[OF assms(1)]]
  have "\<forall>day\<in>{1..int (length prod0)}. a (Maintenance day) = 0 \<or> a (Maintenance day) = 1"
    by blast
  then have bin: "\<forall>day\<in>set (T m). a (Maintenance day) = 0 \<or> a (Maintenance day) = 1"
    unfolding build_model_T[OF assms(1)] by simp
  have "(\<Sum>day\<leftarrow>T m. capacity * the (Production m day) * the (Prices m day) * (1 - a (Maintenance day))
                          - fixed_cost * the (MaintenanceCoeff m day) * a (Maintenance day))
        = (\<Sum>day\<leftarrow>T m. if a (Maintenance day) = 1
                          then - (fixed_cost * the (MaintenanceCoeff m day))
                          else capacity * the (Production m day) * the (Prices m day))"
    by (rule arg_cong[where f = sum_list], rule map_cong[OF refl]) (use bin in auto)
  with gen[of a] have "eval a (profit m) =
          (\<Sum>day\<leftarrow>T m. if a (Maintenance day) = 1
                          then - (fixed_cost * the (MaintenanceCoeff m day))
                          else capacity * the (Production m day) * the (Prices m day))"
    by simp
  with P(1,2,3,5) def gen show ?thesis by blast
qed

theorem profit_objective_witness:
  "feasible (projr (scenario (uniform 6 1))) (plan5 2)
   \<and> profit_sense (projr (scenario (uniform 6 1))) = maximize
   \<and> eval (plan5 2) (profit (projr (scenario (uniform 6 1)))) = 20 * 1 * 10 - 5 * (500 * 1)"
proof -
  note th = profit_objective[OF scenario_full[unfolded scenario_def] feasible_plan5_2[unfolded scenario_def],
      folded scenario_def]
  from th have params: "Production (projr (scenario (uniform 6 1))) = map_of (uniform 6 1)"
    "Prices (projr (scenario (uniform 6 1))) = map_of (uniform 6 10)"
    "MaintenanceCoeff (projr (scenario (uniform 6 1))) = map_of (uniform 6 1)"
    by blast+
  from th have "eval (plan5 2) (profit (projr (scenario (uniform 6 1)))) =
      (\<Sum>day\<leftarrow>T (projr (scenario (uniform 6 1))). if plan5 2 (Maintenance day) = 1
                          then - (500 * the (MaintenanceCoeff (projr (scenario (uniform 6 1))) day))
                          else 20 * the (Production (projr (scenario (uniform 6 1))) day)
                                  * the (Prices (projr (scenario (uniform 6 1))) day))"
    by blast
  then have "eval (plan5 2) (profit (projr (scenario (uniform 6 1)))) = 20 * 1 * 10 - 5 * (500 * 1)"
    unfolding params scenario_full_T by (simp add: uniform_def upto_from_one)
  with th feasible_plan5_2 show ?thesis by blast
qed

subsection \<open>The solution interpreter: claims C5, C10 and C7\<close>

lemma report_5_out:
  "set (fst (report_5 s days)) \<subseteq> Window5_starts ` set days"
  by (induction days) (auto split: option.splits prod.splits)

lemma report_3_2_out:
  "set (fst (report_3_2 s days)) \<subseteq> Window3_starts ` set days \<union> Window2_starts ` set days"
  by (induction days) (auto split: option.splits prod.splits)



lemma print_solution_optimal:
  assumes "status res = ss_ok" and "termination_condition res = tc_optimal"
    and "s Split = Some split"
  shows "\<exists>tot. set tot \<subseteq> range Total_Revenue \<and>
     set (fst (print_solution m s res)) =
       (if split = 0
        then {Optimal_solution_found, Chosen_strategy_5_day} \<union> set (fst (report_5 s (T m)))
        else {Optimal_solution_found, Chosen_strategy_3_2_day} \<union> set (fst (report_3_2 s (T m))))
       \<union> set tot"
proof (cases "split = 0")
  case True
  obtain out e where r: "report_5 s (T m) = (out, e)" by (cases "report_5 s (T m)")
  show ?thesis
  proof (cases e)
    case None
    obtain tot e' where t: "report_total m s = (tot, e')" by (cases "report_total m s")
    then have "set tot \<subseteq> range Total_Revenue"
      by (auto simp: report_total_def split: sum.splits)
    moreover have "set (fst (print_solution m s res)) =
        {Optimal_solution_found, Chosen_strategy_5_day} \<union> set out \<union> set tot"
      using assms True r None t by (auto simp: print_solution_def)
    ultimately show ?thesis using True r by auto
  next
    case (Some err)
    have "set (fst (print_solution m s res)) =
        {Optimal_solution_found, Chosen_strategy_5_day} \<union> set out \<union> set []"
      using assms True r Some by (auto simp: print_solution_def)
    then show ?thesis using True r by (intro exI[of _ "[]"]) simp
  qed
next
  case False
  obtain out e where r: "report_3_2 s (T m) = (out, e)" by (cases "report_3_2 s (T m)")
  show ?thesis
  proof (cases e)
    case None
    obtain tot e' where t: "report_total m s = (tot, e')" by (cases "report_total m s")
    then have "set tot \<subseteq> range Total_Revenue"
      by (auto simp: report_total_def split: sum.splits)
    moreover have "set (fst (print_solution m s res)) =
        {Optimal_solution_found, Chosen_strategy_3_2_day} \<union> set out \<union> set tot"
      using assms False r None t by (auto simp: print_solution_def)
    ultimately show ?thesis using False r by auto
  next
    case (Some err)
    have "set (fst (print_solution m s res)) =
        {Optimal_solution_found, Chosen_strategy_3_2_day} \<union> set out \<union> set []"
      using assms False r Some by (auto simp: print_solution_def)
    then show ?thesis using False r by (intro exI[of _ "[]"]) simp
  qed
qed

text \<open>
  Claim C5. Unless the solver status is \<open>ok\<close> with termination condition
  \<open>optimal\<close>, \<^verbatim>\<open>print_solution\<close> prints the single line
  \<^verbatim>\<open>No feasible solution or solver error.\<close> and nothing else: no strategy, no start day
  and no profit. It reads no variable, so it raises nothing, whatever values the model
  holds.
\<close>

theorem no_solution_outcome:
  assumes "\<not> (status res = ss_ok \<and> termination_condition res = tc_optimal)"
  shows "print_solution m s res = ([No_feasible_solution_or_solver_error], None)"
  using assms by (auto simp: print_solution_def)

text \<open>
  Claim C10. With an optimal result, the strategy line is chosen by comparing the value of
  \<open>Split\<close> with 0 exactly: the 5-day line is printed exactly when the value is 0, the
  3-day + 2-day line exactly when it is anything else, however close to 0.
\<close>

theorem strategy_by_exact_zero:
  assumes "status res = ss_ok" and "termination_condition res = tc_optimal"
    and "s Split = Some split"
  shows "(Chosen_strategy_5_day \<in> set (fst (print_solution m s res)) \<longleftrightarrow> split = 0)
    \<and> (Chosen_strategy_3_2_day \<in> set (fst (print_solution m s res)) \<longleftrightarrow> split \<noteq> 0)"
proof -
  from print_solution_optimal[of res s split m, OF assms] obtain tot where
    tot: "set tot \<subseteq> range Total_Revenue"
    and out: "set (fst (print_solution m s res)) =
       (if split = 0
        then {Optimal_solution_found, Chosen_strategy_5_day} \<union> set (fst (report_5 s (T m)))
        else {Optimal_solution_found, Chosen_strategy_3_2_day} \<union> set (fst (report_3_2 s (T m))))
       \<union> set tot"
    by blast
  show ?thesis
    unfolding out using tot report_5_out[of s "T m"] report_3_2_out[of s "T m"]
    by (cases "split = 0") auto
qed





theorem no_solution_outcome_witness:
  "print_solution (projr (scenario (uniform 6 0))) Map.empty infeasible_result
     = ([No_feasible_solution_or_solver_error], None)
   \<and> print_solution (projr (scenario (uniform 6 1))) (solved (plan5 2))
        \<lparr> status = ss_ok, termination_condition = tc_feasible \<rparr>
     = ([No_feasible_solution_or_solver_error], None)"
  using no_solution_outcome[of infeasible_result "projr (scenario (uniform 6 0))" Map.empty]
    no_solution_outcome[of "\<lparr> status = ss_ok, termination_condition = tc_feasible \<rparr>"
      "projr (scenario (uniform 6 1))" "solved (plan5 2)"]
  by (simp add: infeasible_result_def)

theorem strategy_by_exact_zero_witness:
  "Chosen_strategy_3_2_day \<in> set (fst (print_solution (projr (scenario (uniform 6 1)))
       ((solved (plan32 1 5))(Split \<mapsto> 1 / 1000000000)) optimal_result))
   \<and> Chosen_strategy_5_day \<notin> set (fst (print_solution (projr (scenario (uniform 6 1)))
       ((solved (plan32 1 5))(Split \<mapsto> 1 / 1000000000)) optimal_result))
   \<and> Chosen_strategy_5_day \<in> set (fst (print_solution (projr (scenario (uniform 6 1)))
       (solved (plan5 2)) optimal_result))
   \<and> Chosen_strategy_3_2_day \<notin> set (fst (print_solution (projr (scenario (uniform 6 1)))
       (solved (plan5 2)) optimal_result))"
  using strategy_by_exact_zero[of optimal_result "(solved (plan32 1 5))(Split \<mapsto> 1 / 1000000000)"
      "1 / 1000000000" "projr (scenario (uniform 6 1))"]
    strategy_by_exact_zero[of optimal_result "solved (plan5 2)" 0 "projr (scenario (uniform 6 1))"]
  by (simp add: optimal_result_def solved_def)



subsection \<open>The days under maintenance: claims C6 and C9\<close>

lemma window_sum:
  fixes f :: "int \<Rightarrow> real"
  assumes "s \<in> {1..n}" and "f s = 1" and "\<forall>k\<in>{1..n}. k \<noteq> s \<longrightarrow> f k = 0" and "d \<in> {1..n}"
  shows "(\<Sum>k = max 1 (d - j)..d. f k) = (if s \<le> d \<and> d \<le> s + j then 1 else 0)"
proof -
  have "(\<Sum>k = max 1 (d - j)..d. f k) = (\<Sum>k = max 1 (d - j)..d. if k = s then 1 else 0)"
    by (rule sum.cong) (use assms in auto)
  also have "\<dots> = (if s \<in> {max 1 (d - j)..d} then 1 else 0)"
    by simp
  also have "\<dots> = (if s \<le> d \<and> d \<le> s + j then 1 else 0)"
    using assms(1) by auto
  finally show ?thesis .
qed

lemma window_sum_zero:
  fixes f :: "int \<Rightarrow> real"
  assumes "\<forall>k\<in>{1..n}. f k = 0" and "d \<in> {1..n}"
  shows "(\<Sum>k = max 1 (d - j)..d. f k) = 0"
  by (rule sum.neutral) (use assms in auto)

lemma filter_upto_window:
  assumes "1 \<le> s"
  shows "filter (\<lambda>d. s \<le> d \<and> d \<le> u) [1..n] = [s..min u n]"
proof (rule sorted_distinct_set_unique)
  show "sorted (filter (\<lambda>d. s \<le> d \<and> d \<le> u) [1..n])"
    by (rule sorted_wrt_filter) simp
  show "set (filter (\<lambda>d. s \<le> d \<and> d \<le> u) [1..n]) = set [s..min u n]"
    using assms by auto
qed simp_all

lemma length_T:
  assumes "build_model p pr c av cap fc = Inr m"
  shows "int (length (T m)) = int (length p)"
  unfolding build_model_T[OF assms] by simp

lemma single_window_days:
  assumes build: "build_model p pr c av cap fc = Inr m" and feas: "feasible m a"
    and split: "a Split = 0"
  shows "\<exists>s\<in>set (T m). a (Start5 s) = 1 \<and> (\<forall>d\<in>set (T m). a (Start5 d) = 1 \<longrightarrow> d = s)
     \<and> maintenance_days m a = [s..min (s + 4) (int (length (T m)))]"
proof -
  let ?n = "int (length p)"
  note fb = feas[unfolded feasible_built_iff[OF build]]
  note Tm = build_model_T[OF build]
  from fb have b5: "\<forall>k\<in>{1..?n}. a (Start5 k) = 0 \<or> a (Start5 k) = 1"
    and b3: "\<forall>k\<in>{1..?n}. a (Start3 k) = 0 \<or> a (Start3 k) = 1"
    and b2: "\<forall>k\<in>{1..?n}. a (Start2 k) = 0 \<or> a (Start2 k) = 1"
    by blast+
  from fb split have c5: "(\<Sum>d = 1..?n. a (Start5 d)) = 1"
    and c3: "(\<Sum>d = 1..?n. a (Start3 d)) = 0" and c2: "(\<Sum>d = 1..?n. a (Start2 d)) = 0"
    by simp_all
  from fb have link: "\<forall>d\<in>{1..?n}.
          a (Maintenance d) = (\<Sum>k = max 1 (d - 4)..d. a (Start5 k))
                             + (\<Sum>k = max 1 (d - 2)..d. a (Start3 k))
                             + (\<Sum>k = max 1 (d - 1)..d. a (Start2 k))"
    by blast
  from binary_sum_one_unique[OF _ b5 c5] obtain s where
    s: "s \<in> {1..?n}" "a (Start5 s) = 1" "\<forall>k\<in>{1..?n}. k \<noteq> s \<longrightarrow> a (Start5 k) = 0"
    by auto
  have z3: "\<forall>k\<in>{1..?n}. a (Start3 k) = 0" using binary_sum_zero_iff[OF _ b3] c3 by simp
  have z2: "\<forall>k\<in>{1..?n}. a (Start2 k) = 0" using binary_sum_zero_iff[OF _ b2] c2 by simp
  have M: "a (Maintenance d) = (if s \<le> d \<and> d \<le> s + 4 then 1 else 0)" if "d \<in> {1..?n}" for d
    using link that
    by (simp add: window_sum[OF s that] window_sum_zero[OF z3 that] window_sum_zero[OF z2 that])
  have "maintenance_days m a = filter (\<lambda>d. s \<le> d \<and> d \<le> s + 4) [1..?n]"
    unfolding maintenance_days_def Tm
    by (rule filter_cong[OF refl]) (simp add: M)
  also have "\<dots> = [s..min (s + 4) ?n]"
    using s(1) by (simp add: filter_upto_window)
  finally have days: "maintenance_days m a = [s..min (s + 4) (int (length (T m)))]"
    unfolding length_T[OF build] .
  have uniq: "\<forall>d\<in>set (T m). a (Start5 d) = 1 \<longrightarrow> d = s"
    unfolding Tm using s(3) by auto
  from s(1) have "s \<in> set (T m)" unfolding Tm by simp
  with s(2) uniq days show ?thesis by blast
qed

lemma split_window_days:
  assumes build: "build_model p pr c av cap fc = Inr m" and feas: "feasible m a"
    and split: "a Split = 1"
  shows "\<exists>s3\<in>set (T m). \<exists>s2\<in>set (T m). a (Start3 s3) = 1 \<and> a (Start2 s2) = 1
     \<and> (\<forall>d\<in>set (T m). (a (Start3 d) = 1 \<longrightarrow> d = s3) \<and> (a (Start2 d) = 1 \<longrightarrow> d = s2))
     \<and> set (maintenance_days m a) =
           {s3..min (s3 + 2) (int (length (T m)))} \<union> {s2..min (s2 + 1) (int (length (T m)))}
     \<and> {s3..min (s3 + 2) (int (length (T m)))} \<inter> {s2..min (s2 + 1) (int (length (T m)))} = {}"
proof -
  let ?n = "int (length p)"
  note fb = feas[unfolded feasible_built_iff[OF build]]
  note Tm = build_model_T[OF build]
  from fb have b5: "\<forall>k\<in>{1..?n}. a (Start5 k) = 0 \<or> a (Start5 k) = 1"
    and b3: "\<forall>k\<in>{1..?n}. a (Start3 k) = 0 \<or> a (Start3 k) = 1"
    and b2: "\<forall>k\<in>{1..?n}. a (Start2 k) = 0 \<or> a (Start2 k) = 1"
    and bM: "\<forall>k\<in>{1..?n}. a (Maintenance k) = 0 \<or> a (Maintenance k) = 1"
    by blast+
  from fb split have c5: "(\<Sum>d = 1..?n. a (Start5 d)) = 0"
    and c3: "(\<Sum>d = 1..?n. a (Start3 d)) = 1" and c2: "(\<Sum>d = 1..?n. a (Start2 d)) = 1"
    by simp_all
  from fb have link: "\<forall>d\<in>{1..?n}.
          a (Maintenance d) = (\<Sum>k = max 1 (d - 4)..d. a (Start5 k))
                             + (\<Sum>k = max 1 (d - 2)..d. a (Start3 k))
                             + (\<Sum>k = max 1 (d - 1)..d. a (Start2 k))"
    by blast
  from binary_sum_one_unique[OF _ b3 c3] obtain s3 where
    s3: "s3 \<in> {1..?n}" "a (Start3 s3) = 1" "\<forall>k\<in>{1..?n}. k \<noteq> s3 \<longrightarrow> a (Start3 k) = 0"
    by auto
  from binary_sum_one_unique[OF _ b2 c2] obtain s2 where
    s2: "s2 \<in> {1..?n}" "a (Start2 s2) = 1" "\<forall>k\<in>{1..?n}. k \<noteq> s2 \<longrightarrow> a (Start2 k) = 0"
    by auto
  have z5: "\<forall>k\<in>{1..?n}. a (Start5 k) = 0" using binary_sum_zero_iff[OF _ b5] c5 by simp
  have M: "a (Maintenance d) = (if s3 \<le> d \<and> d \<le> s3 + 2 then 1 else 0)
                             + (if s2 \<le> d \<and> d \<le> s2 + 1 then 1 else 0)" if "d \<in> {1..?n}" for d
    using link that
    by (simp add: window_sum[OF s3 that] window_sum[OF s2 that] window_sum_zero[OF z5 that])
  have not_both: "\<not> ((s3 \<le> d \<and> d \<le> s3 + 2) \<and> (s2 \<le> d \<and> d \<le> s2 + 1))" if "d \<in> {1..?n}" for d
  proof
    assume "(s3 \<le> d \<and> d \<le> s3 + 2) \<and> (s2 \<le> d \<and> d \<le> s2 + 1)"
    with M[OF that] have "a (Maintenance d) = 2" by simp
    moreover from bM that have "a (Maintenance d) = 0 \<or> a (Maintenance d) = 1" by blast
    ultimately show False by simp
  qed
  have M1: "a (Maintenance d) = 1 \<longleftrightarrow> (s3 \<le> d \<and> d \<le> s3 + 2) \<or> (s2 \<le> d \<and> d \<le> s2 + 1)"
    if "d \<in> {1..?n}" for d
    using M[OF that] not_both[OF that] by auto
  have "set (maintenance_days m a) = {d \<in> {1..?n}. a (Maintenance d) = 1}"
    unfolding maintenance_days_def Tm by auto
  also have "\<dots> = {d \<in> {1..?n}. (s3 \<le> d \<and> d \<le> s3 + 2) \<or> (s2 \<le> d \<and> d \<le> s2 + 1)}"
    using M1 by blast
  also have "\<dots> = {s3..min (s3 + 2) ?n} \<union> {s2..min (s2 + 1) ?n}"
    using s3(1) s2(1) by auto
  finally have days: "set (maintenance_days m a) =
           {s3..min (s3 + 2) (int (length (T m)))} \<union> {s2..min (s2 + 1) (int (length (T m)))}"
    unfolding length_T[OF build] .
  have "{s3..min (s3 + 2) ?n} \<inter> {s2..min (s2 + 1) ?n} = {}"
  proof (rule ccontr)
    assume "{s3..min (s3 + 2) ?n} \<inter> {s2..min (s2 + 1) ?n} \<noteq> {}"
    then obtain d where d: "d \<in> {s3..min (s3 + 2) ?n}" "d \<in> {s2..min (s2 + 1) ?n}" by blast
    with s3(1) have "d \<in> {1..?n}" by auto
    from not_both[OF this] d show False by auto
  qed
  then have disj: "{s3..min (s3 + 2) (int (length (T m)))} \<inter> {s2..min (s2 + 1) (int (length (T m)))} = {}"
    unfolding length_T[OF build] .
  have uniq: "\<forall>d\<in>set (T m). (a (Start3 d) = 1 \<longrightarrow> d = s3) \<and> (a (Start2 d) = 1 \<longrightarrow> d = s2)"
    unfolding Tm using s3(3) s2(3) by auto
  from s3(1) s2(1) have "s3 \<in> set (T m)" "s2 \<in> set (T m)" unfolding Tm by simp_all
  with s3(2) s2(2) uniq days disj show ?thesis by blast
qed

text \<open>
  Claim C6, amended. In every feasible assignment of a built model with horizon \<open>T\<close>:
  when \<open>Split = 0\<close> there is exactly one day \<open>s\<close> with \<open>Start5[s] = 1\<close> and the days under
  maintenance are the run \<open>s .. min (s + 4) T\<close>; when \<open>Split = 1\<close> there is exactly one day
  \<open>s3\<close> with \<open>Start3[s3] = 1\<close> and exactly one day \<open>s2\<close> with \<open>Start2[s2] = 1\<close>, and the days
  under maintenance are the two runs \<open>s3 .. min (s3 + 2) T\<close> and \<open>s2 .. min (s2 + 1) T\<close>, which are
  disjoint. A run begins at its start day and has its full length of 5, 3 or 2 days unless
  the upper bound of the horizon cuts it off; nothing is cut off at the lower bound.
\<close>

theorem maintenance_runs:
  assumes "build_model prod0 price coeff availability capacity fixed_cost = Inr m"
    and "feasible m a"
  shows "(a Split = 0 \<longrightarrow>
           (\<exists>s\<in>set (T m). a (Start5 s) = 1 \<and> (\<forall>d\<in>set (T m). a (Start5 d) = 1 \<longrightarrow> d = s)
              \<and> maintenance_days m a = [s..min (s + 4) (int (length (T m)))]))
    \<and> (a Split = 1 \<longrightarrow>
           (\<exists>s3\<in>set (T m). \<exists>s2\<in>set (T m). a (Start3 s3) = 1 \<and> a (Start2 s2) = 1
              \<and> (\<forall>d\<in>set (T m). (a (Start3 d) = 1 \<longrightarrow> d = s3) \<and> (a (Start2 d) = 1 \<longrightarrow> d = s2))
              \<and> set (maintenance_days m a) =
                   {s3..min (s3 + 2) (int (length (T m)))} \<union> {s2..min (s2 + 1) (int (length (T m)))}
              \<and> {s3..min (s3 + 2) (int (length (T m)))} \<inter> {s2..min (s2 + 1) (int (length (T m)))} = {}))"
  using single_window_days[OF assms] split_window_days[OF assms] by blast

lemma scenario_full_length: "int (length (T (projr (scenario (uniform 6 1))))) = 6"
  by (simp add: scenario_full_T upto_from_one)

lemma days_plan5_5: "maintenance_days (projr (scenario (uniform 6 1))) (plan5 5) = [5, 6]"
  by (simp add: maintenance_days_def scenario_full_T upto_from_one)

text \<open>
  Claim C6, as stated, fails: on the six-day horizon the schedule that starts the 5-day
  window on day 5 is feasible, and its maintenance days are 5 and 6 only. The run is cut
  off at the upper end of the horizon and is not a run of five days.
\<close>

theorem five_day_run_cut_short:
  "scenario (uniform 6 1) = Inr (projr (scenario (uniform 6 1)))
   \<and> feasible (projr (scenario (uniform 6 1))) (plan5 5)
   \<and> plan5 5 Split = 0
   \<and> plan5 5 (Start5 5) = 1
   \<and> maintenance_days (projr (scenario (uniform 6 1))) (plan5 5) = [5, 6]
   \<and> \<not> (\<exists>s. maintenance_days (projr (scenario (uniform 6 1))) (plan5 5) = [s..s + 4])"
proof -
  have "\<not> (\<exists>s. maintenance_days (projr (scenario (uniform 6 1))) (plan5 5) = [s..s + 4])"
  proof
    assume "\<exists>s. maintenance_days (projr (scenario (uniform 6 1))) (plan5 5) = [s..s + 4]"
    then obtain s where "[5, 6] = [s..s + 4]" unfolding days_plan5_5 ..
    then have "length [5, 6 :: int] = length [s..s + 4]" by simp
    then show False by simp
  qed
  with scenario_full feasible_plan5_5 days_plan5_5 show ?thesis by simp
qed

theorem maintenance_runs_witness:
  "feasible (projr (scenario (uniform 6 1))) (plan5 5)
   \<and> plan5 5 Split = 0
   \<and> maintenance_days (projr (scenario (uniform 6 1))) (plan5 5) = [5..min (5 + 4) 6]
   \<and> feasible (projr (scenario (uniform 6 1))) (plan5 2)
   \<and> plan5 2 Split = 0
   \<and> maintenance_days (projr (scenario (uniform 6 1))) (plan5 2) = [2..min (2 + 4) 6]
   \<and> feasible (projr (scenario (uniform 6 1))) (plan32 1 5)
   \<and> plan32 1 5 Split = 1
   \<and> set (maintenance_days (projr (scenario (uniform 6 1))) (plan32 1 5))
        = {1..min (1 + 2) 6} \<union> {5..min (5 + 1) 6}"
proof -
  let ?M = "projr (scenario (uniform 6 1))"
  note b = scenario_full[unfolded scenario_def]
  from maintenance_runs[OF b feasible_plan5_5[unfolded scenario_def], folded scenario_def]
  obtain s where "plan5 5 (Start5 s) = 1"
    and "maintenance_days ?M (plan5 5) = [s..min (s + 4) (int (length (T ?M)))]"
    by auto
  then have r1: "maintenance_days ?M (plan5 5) = [5..min (5 + 4) 6]"
    by (simp add: scenario_full_length split: if_splits)
  from maintenance_runs[OF b feasible_plan5_2[unfolded scenario_def], folded scenario_def]
  obtain s where "plan5 2 (Start5 s) = 1"
    and "maintenance_days ?M (plan5 2) = [s..min (s + 4) (int (length (T ?M)))]"
    by auto
  then have r2: "maintenance_days ?M (plan5 2) = [2..min (2 + 4) 6]"
    by (simp add: scenario_full_length split: if_splits)
  from maintenance_runs[OF b feasible_plan32[unfolded scenario_def], folded scenario_def]
  obtain s3 s2 where "plan32 1 5 (Start3 s3) = 1" "plan32 1 5 (Start2 s2) = 1"
    and "set (maintenance_days ?M (plan32 1 5)) =
           {s3..min (s3 + 2) (int (length (T ?M)))} \<union> {s2..min (s2 + 1) (int (length (T ?M)))}"
    by auto
  then have r3: "set (maintenance_days ?M (plan32 1 5)) = {1..min (1 + 2) 6} \<union> {5..min (5 + 1) 6}"
    by (simp add: scenario_full_length split: if_splits)
  from r1 r2 r3 feasible_plan5_5 feasible_plan5_2 feasible_plan32 show ?thesis by simp
qed

text \<open>
  Claim C9 says that no unavailable day is under maintenance in a feasible assignment. The
  code fixes only the start variables of unavailable days. On the six-day horizon with days
  2 to 6 unavailable, the 5-day window that starts on day 1 is feasible, and day 2, which is
  unavailable, is under maintenance.
\<close>

theorem maintenance_continues_into_unavailable_day:
  "scenario (blackout 6 2 6) = Inr (projr (scenario (blackout 6 2 6)))
   \<and> map_of (blackout 6 2 6) 2 = Some 0
   \<and> feasible (projr (scenario (blackout 6 2 6))) (plan5 1)
   \<and> plan5 1 (Start5 1) = 1
   \<and> plan5 1 (Maintenance 2) = 1"
  using scenario_blackout feasible_blackout
  by (simp add: blackout_def upto_from_one)

end
